theory Spec2Isabelle
  imports Complex_Main
begin

section \<open>Values, requests and the transport collaborator\<close>

text \<open>
  The data-management functions of package \<open>rubrikcdm\<close> work on decoded JSON held in
  Go values of type \<open>interface{}\<close> and read them with type assertions. \<open>iface\<close> is
  such a value with its dynamic type: \<open>VFloat64\<close> is what a decoded JSON number is,
  \<open>VInt\<close> is the dynamic type of an untyped integer constant (the \<open>0\<close> of
  \<open>x == 0\<close>), \<open>VMap\<close> is a \<open>map[string]interface{}\<close> kept as an association
  list and \<open>VSlice\<close> a \<open>[]interface{}\<close>. The code only ever compares a
  \<open>float64\<close> with zero, so the number is kept as a real.
\<close>

datatype iface =
    VNil
  | VBool bool
  | VFloat64 real
  | VInt int
  | VString string
  | VSlice "iface list"
  | VMap "(string \<times> iface) list"

text \<open>\<open>m[k]\<close> on a Go map: the zero value (a nil interface) when the key is missing.\<close>

definition index :: "(string \<times> iface) list \<Rightarrow> string \<Rightarrow> iface" where
  "index m k = (case map_of m k of None \<Rightarrow> VNil | Some v \<Rightarrow> v)"

text \<open>The type assertions \<open>x.(T)\<close>; \<open>None\<close> is the run-time panic of a failed one.\<close>

fun as_map :: "iface \<Rightarrow> (string \<times> iface) list option" where
  "as_map (VMap m) = Some m"
| "as_map _ = None"

fun as_slice :: "iface \<Rightarrow> iface list option" where
  "as_slice (VSlice xs) = Some xs"
| "as_slice _ = None"

fun as_string :: "iface \<Rightarrow> string option" where
  "as_string (VString s) = Some s"
| "as_string _ = None"

fun as_bool :: "iface \<Rightarrow> bool option" where
  "as_bool (VBool b) = Some b"
| "as_bool _ = None"

fun as_float64 :: "iface \<Rightarrow> real option" where
  "as_float64 (VFloat64 x) = Some x"
| "as_float64 _ = None"

text \<open>
  \<open>x == 0\<close> for an interface value \<open>x\<close>: the constant becomes an \<open>int\<close>, and two
  interface values are equal only when their dynamic types agree. A decoded JSON
  number is a \<open>float64\<close> and so never equal to it.
\<close>

fun eq_int_zero :: "iface \<Rightarrow> bool" where
  "eq_int_zero (VInt n) = (n = 0)"
| "eq_int_zero _ = False"

datatype error = Error string

datatype panic = TypeAssertion | IndexOutOfRange

datatype 'a result = Return 'a | Fail error | Panic panic

text \<open>The three calls of the transport collaborator, with the variadic timeout.\<close>

datatype request =
    Get string string "int list"
  | Post string string iface "int list"
  | Patch string string iface "int list"


fun mutating :: "request \<Rightarrow> bool" where
  "mutating (Get v p t) = False"
| "mutating (Post v p c t) = True"
| "mutating (Patch v p c t) = True"

text \<open>
  The collaborator answers a request with Go's pair of a value and an error, and
  may change the remote system \<open>'s\<close> while doing so. A world is the remote state
  together with the requests issued so far, oldest first.
\<close>

type_synonym reply = "iface \<times> error option"
type_synonym 's transport = "request \<Rightarrow> 's \<Rightarrow> reply \<times> 's"
type_synonym 's world = "'s \<times> request list"

definition send :: "'s transport \<Rightarrow> request \<Rightarrow> 's world \<Rightarrow> reply \<times> 's world" where
  "send tr r w = (case tr r (fst w) of (rep, s') \<Rightarrow> (rep, (s', snd w @ [r])))"

text \<open>\<open>x, err := f(...); if err != nil { return zero, err }\<close>, and a panic unwinding.\<close>

definition on_return ::
  "'a result \<times> 'w \<Rightarrow> ('a \<Rightarrow> 'w \<Rightarrow> 'b result \<times> 'w) \<Rightarrow> 'b result \<times> 'w" where
  "on_return rw k =
     (case rw of
        (Return x, w) \<Rightarrow> k x w
      | (Fail err, w) \<Rightarrow> (Fail err, w)
      | (Panic p, w) \<Rightarrow> (Panic p, w))"

definition on_reply ::
  "reply \<times> 'w \<Rightarrow> (iface \<Rightarrow> 'w \<Rightarrow> 'b result \<times> 'w) \<Rightarrow> 'b result \<times> 'w" where
  "on_reply rw k =
     (case rw of
        ((v, Some err), w) \<Rightarrow> (Fail err, w)
      | ((v, None), w) \<Rightarrow> k v w)"

definition assert :: "'a option \<Rightarrow> 'w \<Rightarrow> ('a \<Rightarrow> 'b result \<times> 'w) \<Rightarrow> 'b result \<times> 'w" where
  "assert x w k = (case x of None \<Rightarrow> (Panic TypeAssertion, w) | Some v \<Rightarrow> k v)"

definition quoted :: "string \<Rightarrow> string" where
  "quoted s = [CHR 0x27] @ s @ [CHR 0x27]"

section \<open>ObjectID\<close>

definition validObjectType :: "(string \<times> bool) list" where
  "validObjectType =
     [(''vmware'', True), (''sla'', True), (''vmwareHost'', True),
      (''physicalHost'', True), (''filesetTemplate'', True), (''managedVolume'', True)]"

text \<open>\<open>table[key]\<close> on a \<open>map[string]bool\<close>: \<open>false\<close> for a missing key.\<close>

definition lookup_bool :: "(string \<times> bool) list \<Rightarrow> string \<Rightarrow> bool" where
  "lookup_bool table k = (case map_of table k of None \<Rightarrow> False | Some b \<Rightarrow> b)"

definition invalid_objectType :: error where
  "invalid_objectType = Error (''The '' @ quoted ''objectType'' @ '' must be '' @ quoted ''vmware''
     @ '', '' @ quoted ''sla'' @ '', '' @ quoted ''vmwareHost'' @ '', '' @ quoted ''physicalHost''
     @ '', '' @ quoted ''filesetTemplate'' @ '', or '' @ quoted ''managedVolume'')"

definition invalid_hostOS :: error where
  "invalid_hostOS = Error (''The hostOS must be either '' @ quoted ''Linux'' @ '' or '' @ quoted ''Windows'')"

definition missing_hostOS :: error where
  "missing_hostOS = Error ''You must provide the Fileset Tempalte OS type''"

definition not_found :: "string \<Rightarrow> string \<Rightarrow> error" where
  "not_found objectType objectName =
     Error (''The '' @ objectType @ '' object '' @ quoted objectName
            @ '' was not found on the Rubrik cluster'')"

definition ambiguous :: "string \<Rightarrow> string \<Rightarrow> error" where
  "ambiguous objectType objectName =
     Error (''Multiple '' @ objectType @ '' objects named '' @ quoted objectName
            @ '' were found on the Rubrik cluster. Unable to return a specific object id'')"

text \<open>
  The \<open>switch objectType\<close> that picks the API version and the list endpoint. Only
  the \<open>filesetTemplate\<close> case reads \<open>hostOS\<close>, and it may return early.
\<close>

definition objectSummary :: "string \<Rightarrow> string \<Rightarrow> string list \<Rightarrow> error + string \<times> string" where
  "objectSummary objectName objectType hostOS =
     (if objectType = ''vmware'' then
        Inr (''v1'', ''/vmware/vm?primary_cluster_id=local&is_relic=false&name='' @ objectName)
      else if objectType = ''sla'' then
        Inr (''v1'', ''/sla_domain?primary_cluster_id=local&name='' @ objectName)
      else if objectType = ''vmwareHost'' then
        Inr (''v1'', ''/vmware/host?primary_cluster_id=local'')
      else if objectType = ''physicalHost'' then
        Inr (''v1'', ''/host?primary_cluster_id=local&hostname='' @ objectName)
      else if objectType = ''filesetTemplate'' then
        (case hostOS of
           hostOperatingSystem # _ \<Rightarrow>
             if hostOperatingSystem = ''Linux'' \<or> hostOperatingSystem = ''Windows'' then
               Inr (''v1'', ''/fileset_template?primary_cluster_id=local&operating_system_type=''
                            @ hostOperatingSystem @ ''&name='' @ objectName)
             else Inl invalid_hostOS
         | [] \<Rightarrow> Inl missing_hostOS)
      else if objectType = ''managedVolume'' then
        Inr (''internal'', ''/managed_volume?is_relic=false&primary_cluster_id=local&name='' @ objectName)
      else Inr ('''', ''''))"

definition nameValue :: "string \<Rightarrow> string" where
  "nameValue objectType = (if objectType = ''physicalHost'' then ''hostname'' else ''name'')"

text \<open>
  The \<open>range\<close> loop over \<open>data\<close>: every element is asserted to be a map whose name
  field is a string, and the \<open>id\<close> of a matching element is asserted to be a string.
\<close>

fun collect :: "string \<Rightarrow> string \<Rightarrow> iface list \<Rightarrow> string list \<Rightarrow> string list option" where
  "collect nv objectName [] objectIDs = Some objectIDs"
| "collect nv objectName (v # vs) objectIDs =
     (case as_map v of
        None \<Rightarrow> None
      | Some m \<Rightarrow>
          (case as_string (index m nv) of
             None \<Rightarrow> None
           | Some n \<Rightarrow>
               if n = objectName then
                 (case as_string (index m ''id'') of
                    None \<Rightarrow> None
                  | Some i \<Rightarrow> collect nv objectName vs (objectIDs @ [i]))
               else collect nv objectName vs objectIDs))"

text \<open>What ObjectID does with a successful answer of the list query.\<close>

definition pick :: "iface \<Rightarrow> string \<Rightarrow> string \<Rightarrow> string result" where
  "pick apiRequest objectType objectName =
     (case as_map apiRequest of
        None \<Rightarrow> Panic TypeAssertion
      | Some m \<Rightarrow>
          if eq_int_zero (index m ''total'') then Fail (not_found objectType objectName)
          else
            (case as_float64 (index m ''total'') of
               None \<Rightarrow> Panic TypeAssertion
             | Some total_count \<Rightarrow>
                 if total_count > 0 then
                   (case as_slice (index m ''data'') of
                      None \<Rightarrow> Panic TypeAssertion
                    | Some data \<Rightarrow>
                        (case collect (nameValue objectType) objectName data [] of
                           None \<Rightarrow> Panic TypeAssertion
                         | Some objectIDs \<Rightarrow>
                             if length objectIDs > 1 then Fail (ambiguous objectType objectName)
                             else if length objectIDs = 0 then Fail (not_found objectType objectName)
                             else Return (objectIDs ! 0)))
                 else Fail (not_found objectType objectName)))"

definition ObjectID ::
  "'s transport \<Rightarrow> string \<Rightarrow> string \<Rightarrow> string list \<Rightarrow> 's world \<Rightarrow> string result \<times> 's world" where
  "ObjectID tr objectName objectType hostOS w =
     (if lookup_bool validObjectType objectType = False then (Fail invalid_objectType, w)
      else
        (case objectSummary objectName objectType hostOS of
           Inl err \<Rightarrow> (Fail err, w)
         | Inr (objectSummaryAPIVersion, objectSummaryAPIEndpoint) \<Rightarrow>
             on_reply (send tr (Get objectSummaryAPIVersion objectSummaryAPIEndpoint []) w)
               (\<lambda>apiRequest w'. (pick apiRequest objectType objectName, w'))))"

section \<open>Timeouts\<close>

text \<open>
  Modelled from the spec: the helper \<open>httpTimeout\<close> that every operation applies to
  its variadic \<open>timeout\<close> is not among the sources. The spec's Timeout entry makes it
  an optional per-call override that defaults to a base value, and the operations
  recognise that base value as 15 (\<open>if httpTimeout == 15\<close> under the comment
  "Change the default to 180").
\<close>

definition httpTimeout :: "int list \<Rightarrow> int" where
  "httpTimeout timeout = (case timeout of [] \<Rightarrow> 15 | t # _ \<Rightarrow> t)"

text \<open>
  The block that opens PauseSnapshot, ResumeSnapshot, OnDemandSnapshotVM and
  OnDemandSnapshotPhysical:
  \<^verbatim>\<open>httpTimeout := httpTimeout(timeout); if httpTimeout == 15 { httpTimeout = 180 }\<close>
\<close>

definition longTimeout :: "int list \<Rightarrow> int" where
  "longTimeout timeout = (if httpTimeout timeout = 15 then 180 else httpTimeout timeout)"

section \<open>AssignSLA\<close>

definition validObjectType_vmware :: "(string \<times> bool) list" where
  "validObjectType_vmware = [(''vmware'', True)]"

definition must_be_vmware :: error where
  "must_be_vmware = Error (''The '' @ quoted ''objectType'' @ '' must be '' @ quoted ''vmware'')"

text \<open>
  The \<open>switch slaName\<close> of AssignSLA. Its default case reads
  \<^verbatim>\<open>slaID, err := c.ObjectID(slaName, "sla")\<close>: the short declaration makes a new
  \<open>slaID\<close> that lives in the case clause only, so the function's own \<open>slaID\<close>
  keeps its zero value, the empty string, after a successful lookup.
\<close>

definition AssignSLA_slaID :: "'s transport \<Rightarrow> string \<Rightarrow> 's world \<Rightarrow> string result \<times> 's world" where
  "AssignSLA_slaID tr slaName w =
     (if slaName = ''do not protect'' then (Return ''UNPROTECTED'', w)
      else if slaName = ''clear'' then (Return ''INHERIT'', w)
      else on_return (ObjectID tr slaName ''sla'' [] w) (\<lambda>inner_slaID w'. (Return [], w')))"

definition already_assigned :: "string \<Rightarrow> string \<Rightarrow> string" where
  "already_assigned objectName slaName =
     ''No change required. The vSphere VM '' @ quoted objectName
     @ '' is already assigned to the '' @ quoted slaName @ '' SLA Domain.''"

definition AssignSLA_post ::
  "'s transport \<Rightarrow> string \<Rightarrow> iface \<Rightarrow> int \<Rightarrow> 's world \<Rightarrow> iface result \<times> 's world" where
  "AssignSLA_post tr slaID config t w =
     on_reply (send tr (Post ''internal'' (''/sla_domain/'' @ slaID @ ''/assign'') config [t]) w)
       (\<lambda>apiRequest w'. (Return apiRequest, w'))"

definition AssignSLA ::
  "'s transport \<Rightarrow> string \<Rightarrow> string \<Rightarrow> string \<Rightarrow> int list \<Rightarrow> 's world \<Rightarrow> iface result \<times> 's world" where
  "AssignSLA tr objectName objectType slaName timeout w =
     (if lookup_bool validObjectType_vmware objectType = False then (Fail must_be_vmware, w)
      else
        on_return (AssignSLA_slaID tr slaName w) (\<lambda>slaID w1.
          if objectType = ''vmware'' then
            on_return (ObjectID tr objectName ''vmware'' [] w1) (\<lambda>vmID w2.
            on_reply (send tr (Get ''v1'' (''/vmware/vm/'' @ vmID) [httpTimeout timeout]) w2) (\<lambda>vmSummary w3.
            assert (as_map vmSummary) w3 (\<lambda>m.
            assert (as_string (index m (if slaID = ''INHERIT'' then ''configuredSlaDomainId''
                                        else ''effectiveSlaDomainId''))) w3 (\<lambda>currentSLAID.
              if slaID = currentSLAID then
                (Return (VString (already_assigned objectName slaName)), w3)
              else
                AssignSLA_post tr slaID (VMap [(''managedIds'', VSlice [VString vmID])])
                  (httpTimeout timeout) w3))))
          else AssignSLA_post tr slaID (VMap []) (httpTimeout timeout) w1))"

section \<open>BeginManagedVolumeSnapshot and EndManagedVolumeSnapshot\<close>

definition already_writeable :: "string \<Rightarrow> string" where
  "already_writeable name =
     ''No change required. The Managed Volume '' @ quoted name @ '' is already in a writeable state.''"

definition already_read_only :: "string \<Rightarrow> string" where
  "already_read_only name =
     ''No change required. The Managed Volume '' @ quoted name @ '' is already in a read-only state.''"

text \<open>\<^verbatim>\<open>managedVolumeSummary.(map[string]interface{})["isWritable"].(bool)\<close>\<close>

definition isWritable :: "iface \<Rightarrow> bool option" where
  "isWritable managedVolumeSummary =
     (case as_map managedVolumeSummary of
        None \<Rightarrow> None
      | Some m \<Rightarrow> as_bool (index m ''isWritable''))"

definition BeginManagedVolumeSnapshot ::
  "'s transport \<Rightarrow> string \<Rightarrow> int list \<Rightarrow> 's world \<Rightarrow> iface result \<times> 's world" where
  "BeginManagedVolumeSnapshot tr name timeout w =
     on_return (ObjectID tr name ''managedVolume'' [] w) (\<lambda>managedVolumeID w1.
     on_reply (send tr (Get ''internal'' (''/managed_volume/'' @ managedVolumeID) [httpTimeout timeout]) w1)
       (\<lambda>managedVolumeSummary w2.
     assert (isWritable managedVolumeSummary) w2 (\<lambda>writable.
       if writable then (Return (VString (already_writeable name)), w2)
       else
         on_reply (send tr (Post ''internal'' (''/managed_volume/'' @ managedVolumeID @ ''/begin_snapshot'')
                              (VMap []) [httpTimeout timeout]) w2)
           (\<lambda>apiRequest w3. (Return apiRequest, w3)))))"

text \<open>
  The \<open>switch slaName\<close> of EndManagedVolumeSnapshot builds the request body:
  nothing for \<open>current\<close>, the resolved SLA under \<open>retentionConfig.slaId\<close> otherwise.
\<close>

definition EndManagedVolumeSnapshot_config ::
  "'s transport \<Rightarrow> string \<Rightarrow> 's world \<Rightarrow> iface result \<times> 's world" where
  "EndManagedVolumeSnapshot_config tr slaName w =
     (if slaName = ''current'' then (Return (VMap []), w)
      else on_return (ObjectID tr slaName ''sla'' [] w) (\<lambda>slaID w'.
             (Return (VMap [(''retentionConfig'', VMap [(''slaId'', VString slaID)])]), w')))"

text \<open>
  The function ends with \<^verbatim>\<open>apiRequest, err := c.Post(...)\<close> followed at once by
  \<^verbatim>\<open>return apiRequest, nil\<close>: the error of the call is not looked at.
\<close>

definition EndManagedVolumeSnapshot ::
  "'s transport \<Rightarrow> string \<Rightarrow> string \<Rightarrow> int list \<Rightarrow> 's world \<Rightarrow> iface result \<times> 's world" where
  "EndManagedVolumeSnapshot tr name slaName timeout w =
     on_return (ObjectID tr name ''managedVolume'' [] w) (\<lambda>managedVolumeID w1.
     on_reply (send tr (Get ''internal'' (''/managed_volume/'' @ managedVolumeID) [httpTimeout timeout]) w1)
       (\<lambda>managedVolumeSummary w2.
     assert (isWritable managedVolumeSummary) w2 (\<lambda>writable.
       if writable = False then (Return (VString (already_read_only name)), w2)
       else
         on_return (EndManagedVolumeSnapshot_config tr slaName w2) (\<lambda>config w3.
           (case send tr (Post ''internal'' (''/managed_volume/'' @ managedVolumeID @ ''/end_snapshot'')
                            config [httpTimeout timeout]) w3 of
              ((apiRequest, err), w4) \<Rightarrow> (Return apiRequest, w4))))))"

section \<open>PauseSnapshot and ResumeSnapshot\<close>

definition already_paused :: "string \<Rightarrow> string \<Rightarrow> string" where
  "already_paused objectName objectType =
     ''No change required. The '' @ quoted objectName @ '' '' @ quoted objectType @ '' is already paused.''"

definition not_paused :: "string \<Rightarrow> string \<Rightarrow> string" where
  "not_paused objectName objectType =
     ''No change required. The '' @ quoted objectName @ '' '' @ quoted objectType
     @ '' is currently not paused.''"

text \<open>
  \<^verbatim>\<open>vmSummary.(map[string]interface{})["blackoutWindowStatus"].(map[string]interface{})["isSnappableBlackoutActive"].(bool)\<close>
\<close>

definition isSnappableBlackoutActive :: "iface \<Rightarrow> bool option" where
  "isSnappableBlackoutActive vmSummary =
     (case as_map vmSummary of
        None \<Rightarrow> None
      | Some m \<Rightarrow>
          (case as_map (index m ''blackoutWindowStatus'') of
             None \<Rightarrow> None
           | Some status \<Rightarrow> as_bool (index status ''isSnappableBlackoutActive'')))"

definition PauseSnapshot ::
  "'s transport \<Rightarrow> string \<Rightarrow> string \<Rightarrow> int list \<Rightarrow> 's world \<Rightarrow> iface result \<times> 's world" where
  "PauseSnapshot tr objectName objectType timeout w =
     (if lookup_bool validObjectType_vmware objectType = False then (Fail must_be_vmware, w)
      else if objectType = ''vmware'' then
        on_return (ObjectID tr objectName ''vmware'' [] w) (\<lambda>vmID w1.
        on_reply (send tr (Get ''v1'' (''/vmware/vm/'' @ vmID) [longTimeout timeout]) w1) (\<lambda>vmSummary w2.
        assert (isSnappableBlackoutActive vmSummary) w2 (\<lambda>active.
          if active then (Return (VString (already_paused objectName objectType)), w2)
          else
            on_reply (send tr (Patch ''v1'' (''/vmware/vm/'' @ vmID) (VMap [(''isVmPaused'', VBool True)])
                                 [longTimeout timeout]) w2)
              (\<lambda>apiRequest w3. (Return apiRequest, w3)))))
      else (Return (VString []), w))"

definition ResumeSnapshot ::
  "'s transport \<Rightarrow> string \<Rightarrow> string \<Rightarrow> int list \<Rightarrow> 's world \<Rightarrow> iface result \<times> 's world" where
  "ResumeSnapshot tr objectName objectType timeout w =
     (if lookup_bool validObjectType_vmware objectType = False then (Fail must_be_vmware, w)
      else if objectType = ''vmware'' then
        on_return (ObjectID tr objectName ''vmware'' [] w) (\<lambda>vmID w1.
        on_reply (send tr (Get ''v1'' (''/vmware/vm/'' @ vmID) [longTimeout timeout]) w1) (\<lambda>vmSummary w2.
        assert (isSnappableBlackoutActive vmSummary) w2 (\<lambda>active.
          if active = False then (Return (VString (not_paused objectName objectType)), w2)
          else
            on_reply (send tr (Patch ''v1'' (''/vmware/vm/'' @ vmID) (VMap [(''isVmPaused'', VBool False)])
                                 [longTimeout timeout]) w2)
              (\<lambda>apiRequest w3. (Return apiRequest, w3)))))
      else (Return (VString []), w))"

section \<open>OnDemandSnapshotVM and OnDemandSnapshotPhysical\<close>

text \<open>
  \<^verbatim>\<open>apiRequest.(map[string]interface{})["links"].([]interface{})[0].(map[string]interface{})["href"].(string)\<close>
\<close>

definition first_link_href :: "iface \<Rightarrow> string result" where
  "first_link_href apiRequest =
     (case as_map apiRequest of
        None \<Rightarrow> Panic TypeAssertion
      | Some m \<Rightarrow>
          (case as_slice (index m ''links'') of
             None \<Rightarrow> Panic TypeAssertion
           | Some [] \<Rightarrow> Panic IndexOutOfRange
           | Some (link # _) \<Rightarrow>
               (case as_map link of
                  None \<Rightarrow> Panic TypeAssertion
                | Some l \<Rightarrow>
                    (case as_string (index l ''href'') of
                       None \<Rightarrow> Panic TypeAssertion
                     | Some href \<Rightarrow> Return href))))"

text \<open>
  The \<open>switch slaName\<close> of OnDemandSnapshotVM assigns to \<open>var slaID interface{}\<close>
  either the whole VM summary (\<open>current\<close>) or the string that ObjectID returned.
\<close>

definition OnDemandSnapshotVM_slaID ::
  "'s transport \<Rightarrow> string \<Rightarrow> string \<Rightarrow> 's world \<Rightarrow> iface result \<times> 's world" where
  "OnDemandSnapshotVM_slaID tr vmID slaName w =
     (if slaName = ''current'' then
        on_reply (send tr (Get ''v1'' (''/vmware/vm/'' @ vmID) []) w) (\<lambda>slaID w'. (Return slaID, w'))
      else
        on_return (ObjectID tr slaName ''sla'' [] w) (\<lambda>slaID w'. (Return (VString slaID), w')))"

definition OnDemandSnapshotVM ::
  "'s transport \<Rightarrow> string \<Rightarrow> string \<Rightarrow> string \<Rightarrow> int list \<Rightarrow> 's world \<Rightarrow> string result \<times> 's world" where
  "OnDemandSnapshotVM tr objectName objectType slaName timeout w =
     (if lookup_bool validObjectType_vmware objectType = False then (Fail must_be_vmware, w)
      else if objectType = ''vmware'' then
        on_return (ObjectID tr objectName ''vmware'' [] w) (\<lambda>vmID w1.
        on_return (OnDemandSnapshotVM_slaID tr vmID slaName w1) (\<lambda>slaID w2.
        assert (as_map slaID) w2 (\<lambda>m.
        assert (as_string (index m ''effectiveSlaDomainId'')) w2 (\<lambda>slaId.
          on_reply (send tr (Post ''v1'' (''/vmware/vm/'' @ vmID @ ''/snapshot'')
                               (VMap [(''slaId'', VString slaId)]) [longTimeout timeout]) w2)
            (\<lambda>apiRequest w3. (first_link_href apiRequest, w3))))))
      else (Return [], w))"

definition validHostOs :: "(string \<times> bool) list" where
  "validHostOs = [(''Linux'', True), (''Windows'', True)]"

definition hostOS_must_be :: error where
  "hostOS_must_be = Error (''The '' @ quoted ''hostOS'' @ '' must be '' @ quoted ''Linux''
                           @ '' or '' @ [CHR 0x27] @ ''Windows'')"

definition not_assigned :: "string \<Rightarrow> string \<Rightarrow> error" where
  "not_assigned hostName fileset =
     Error (''The Physical Host '' @ quoted hostName @ '' is not assigned to the ''
            @ quoted fileset @ '' Fileset'')"

text \<open>
  \<^verbatim>\<open>filesetSummary.(map[string]interface{})["data"].([]interface{})[0].(map[string]interface{})[key].(string)\<close>
  for the two keys read, \<open>id\<close> and \<open>effectiveSlaDomainId\<close>.
\<close>

definition first_fileset_field :: "(string \<times> iface) list \<Rightarrow> string \<Rightarrow> panic + string" where
  "first_fileset_field m key =
     (case as_slice (index m ''data'') of
        None \<Rightarrow> Inl TypeAssertion
      | Some [] \<Rightarrow> Inl IndexOutOfRange
      | Some (first # _) \<Rightarrow>
          (case as_map first of
             None \<Rightarrow> Inl TypeAssertion
           | Some f \<Rightarrow>
               (case as_string (index f key) of
                  None \<Rightarrow> Inl TypeAssertion
                | Some s \<Rightarrow> Inr s)))"

definition OnDemandSnapshotPhysical_slaID ::
  "'s transport \<Rightarrow> (string \<times> iface) list \<Rightarrow> string \<Rightarrow> 's world \<Rightarrow> string result \<times> 's world" where
  "OnDemandSnapshotPhysical_slaID tr m slaName w =
     (if slaName = ''current'' then
        (case first_fileset_field m ''effectiveSlaDomainId'' of
           Inl p \<Rightarrow> (Panic p, w)
         | Inr slaID \<Rightarrow> (Return slaID, w))
      else ObjectID tr slaName ''sla'' [] w)"

definition OnDemandSnapshotPhysical ::
  "'s transport \<Rightarrow> string \<Rightarrow> string \<Rightarrow> string \<Rightarrow> string \<Rightarrow> int list \<Rightarrow> 's world
     \<Rightarrow> string result \<times> 's world" where
  "OnDemandSnapshotPhysical tr hostName slaName fileset hostOS timeout w =
     (if lookup_bool validHostOs hostOS = False then (Fail hostOS_must_be, w)
      else
        on_return (ObjectID tr hostName ''physicalHost'' [] w) (\<lambda>hostID w1.
        on_return (ObjectID tr fileset ''filesetTemplate'' [hostOS] w1) (\<lambda>filesetTemplateID w2.
        on_reply (send tr (Get ''v1'' (''/fileset?primary_cluster_id=local&host_id='' @ hostID
                                       @ ''&is_relic=false&template_id='' @ filesetTemplateID) []) w2)
          (\<lambda>filesetSummary w3.
        assert (as_map filesetSummary) w3 (\<lambda>m.
          if eq_int_zero (index m ''total'') then (Fail (not_assigned hostName fileset), w3)
          else
            (case first_fileset_field m ''id'' of
               Inl p \<Rightarrow> (Panic p, w3)
             | Inr filesetID \<Rightarrow>
                 on_return (OnDemandSnapshotPhysical_slaID tr m slaName w3) (\<lambda>slaID w4.
                 on_reply (send tr (Post ''v1'' (''/fileset/'' @ filesetID @ ''/snapshot'')
                                      (VMap [(''slaId'', VString slaID)]) [longTimeout timeout]) w4)
                   (\<lambda>apiRequeset w5. (first_link_href apiRequeset, w5)))))))))"

section \<open>Vocabulary of the properties\<close>

text \<open>
  The candidates of a list answer that ObjectID reads without a failed type assertion:
  each has a string under the name field, and a string \<open>id\<close> when the name is the
  one looked for. \<open>matching_ids\<close> are the identifiers of the exact-name matches, in
  the order of the answer.
\<close>

definition well_shaped :: "string \<Rightarrow> string \<Rightarrow> (string \<times> iface) list \<Rightarrow> bool" where
  "well_shaped nv objectName c =
     (case as_string (index c nv) of
        None \<Rightarrow> False
      | Some n \<Rightarrow> if n = objectName then as_string (index c ''id'') \<noteq> None else True)"

fun string_of :: "iface \<Rightarrow> string" where
  "string_of (VString s) = s"
| "string_of _ = []"

definition matching_ids :: "string \<Rightarrow> string \<Rightarrow> (string \<times> iface) list list \<Rightarrow> string list" where
  "matching_ids nv objectName cands =
     [string_of (index c ''id''). c \<leftarrow> cands, index c nv = VString objectName]"

text \<open>
  \<open>fetched\<close>: the name resolved to \<open>ident\<close> and the GET of the object's summary,
  issued with timeout \<open>t\<close>, answered \<open>summary\<close> without an error, leaving the world
  \<open>w2\<close>.
\<close>

definition fetched ::
  "'s transport \<Rightarrow> string \<Rightarrow> string \<Rightarrow> string \<Rightarrow> string \<Rightarrow> int \<Rightarrow> 's world
     \<Rightarrow> string \<Rightarrow> iface \<Rightarrow> 's world \<Rightarrow> bool" where
  "fetched tr objectName objectType version prefix t w ident summary w2 \<longleftrightarrow>
     fst (ObjectID tr objectName objectType [] w) = Return ident \<and>
     send tr (Get version (prefix @ ident) [t]) (snd (ObjectID tr objectName objectType [] w))
       = ((summary, None), w2)"

text \<open>No mutating request was issued between two worlds.\<close>

definition no_mutation :: "'s world \<Rightarrow> 's world \<Rightarrow> bool" where
  "no_mutation w w' \<longleftrightarrow> filter mutating (snd w') = filter mutating (snd w)"

text \<open>
  \<open>performs tr rq w out\<close>: the operation ended by sending the mutating request
  \<open>rq\<close> from world \<open>w\<close> and nothing after it, and when the collaborator reported
  no error it returned the raw response.
\<close>

definition performs :: "'s transport \<Rightarrow> request \<Rightarrow> 's world \<Rightarrow> iface result \<times> 's world \<Rightarrow> bool" where
  "performs tr rq w out \<longleftrightarrow>
     mutating rq \<and> snd out = snd (send tr rq w) \<and>
     (snd (fst (send tr rq w)) = None \<longrightarrow> fst out = Return (fst (fst (send tr rq w))))"







section \<open>An example cluster\<close>

text \<open>
  A collaborator that answers from a table of routes and reports an error for any
  other request. The example cluster holds two virtual machines (the answer for
  \<open>vm3\<close> has a stale count of zero), three SLA domain names of which \<open>Bronze\<close>
  does not exist, two writable managed volumes of which only \<open>mv1\<close> accepts the
  end of a snapshot, and two physical hosts with a fileset template, of which only
  \<open>host2\<close> has a fileset.
\<close>

fun verb :: "request \<Rightarrow> string" where
  "verb (Get v p t) = ''GET''"
| "verb (Post v p c t) = ''POST''"
| "verb (Patch v p c t) = ''PATCH''"

fun path_of :: "request \<Rightarrow> string" where
  "path_of (Get v p t) = p"
| "path_of (Post v p c t) = p"
| "path_of (Patch v p c t) = p"

definition scripted :: "((string \<times> string) \<times> iface) list \<Rightarrow> 's transport" where
  "scripted routes r s =
     (case map_of routes (verb r, path_of r) of
        Some v \<Rightarrow> ((v, None), s)
      | None \<Rightarrow> ((VNil, Some (Error ''404 Not Found'')), s))"

definition entry :: "string \<Rightarrow> string \<Rightarrow> string \<Rightarrow> iface" where
  "entry nv name ident = VMap [(nv, VString name), (''id'', VString ident)]"

definition listing :: "real \<Rightarrow> iface list \<Rightarrow> iface" where
  "listing n entries = VMap [(''total'', VFloat64 n), (''data'', VSlice entries)]"

definition cluster :: "((string \<times> string) \<times> iface) list" where
  "cluster =
    [((''GET'', ''/vmware/vm?primary_cluster_id=local&is_relic=false&name=vm1''),
        listing 2 [entry ''name'' ''vm10'' ''vm-10'', entry ''name'' ''vm1'' ''vm-1'']),
     ((''GET'', ''/vmware/vm?primary_cluster_id=local&is_relic=false&name=vm3''),
        listing 0 [entry ''name'' ''vm3'' ''vm-3'']),
     ((''GET'', ''/sla_domain?primary_cluster_id=local&name=Gold''),
        listing 1 [entry ''name'' ''Gold'' ''sla-gold'']),
     ((''GET'', ''/sla_domain?primary_cluster_id=local&name=Silver''),
        listing 1 [entry ''name'' ''Silver'' ''sla-silver'']),
     ((''GET'', ''/sla_domain?primary_cluster_id=local&name=Bronze''), listing 0 []),
     ((''GET'', ''/vmware/vm/vm-1''),
        VMap [(''effectiveSlaDomainId'', VString ''sla-gold''),
              (''configuredSlaDomainId'', VString ''sla-gold''),
              (''blackoutWindowStatus'', VMap [(''isSnappableBlackoutActive'', VBool False)])]),
     ((''PATCH'', ''/vmware/vm/vm-1''), VMap [(''id'', VString ''vm-1'')]),
     ((''POST'', ''/sla_domain/sla-gold/assign''), VMap []),
     ((''POST'', ''/sla_domain/sla-silver/assign''), VMap []),
     ((''POST'', ''/vmware/vm/vm-1/snapshot''),
        VMap [(''links'', VSlice [VMap [(''href'', VString ''/vmware/vm/request/1'')]])]),
     ((''GET'', ''/managed_volume?is_relic=false&primary_cluster_id=local&name=mv1''),
        listing 1 [entry ''name'' ''mv1'' ''mv-1'']),
     ((''GET'', ''/managed_volume/mv-1''), VMap [(''isWritable'', VBool True)]),
     ((''POST'', ''/managed_volume/mv-1/end_snapshot''), VMap [(''id'', VString ''mv-1'')]),
     ((''GET'', ''/managed_volume?is_relic=false&primary_cluster_id=local&name=mv2''),
        listing 1 [entry ''name'' ''mv2'' ''mv-2'']),
     ((''GET'', ''/managed_volume/mv-2''), VMap [(''isWritable'', VBool True)]),
     ((''GET'', ''/host?primary_cluster_id=local&hostname=host1''),
        listing 1 [entry ''hostname'' ''host1'' ''host-1'']),
     ((''GET'', ''/fileset_template?primary_cluster_id=local&operating_system_type=Linux&name=etc''),
        listing 1 [entry ''name'' ''etc'' ''tmpl-1'']),
     ((''GET'', ''/fileset?primary_cluster_id=local&host_id=host-1&is_relic=false&template_id=tmpl-1''),
        listing 0 []),
     ((''GET'', ''/host?primary_cluster_id=local&hostname=host2''),
        listing 1 [entry ''hostname'' ''host2'' ''host-2'']),
     ((''GET'', ''/fileset?primary_cluster_id=local&host_id=host-2&is_relic=false&template_id=tmpl-1''),
        listing 1 [VMap [(''id'', VString ''fs-1''), (''effectiveSlaDomainId'', VString ''sla-gold'')]]),
     ((''POST'', ''/fileset/fs-1/snapshot''),
        VMap [(''links'', VSlice [VMap [(''href'', VString ''/fileset/request/1'')]])])]"

section \<open>Auxiliary facts\<close>

lemma on_return_simps:
  "on_return (Return x, w) k = k x w"
  "on_return (Fail err, w) k = (Fail err, w)"
  "on_return (Panic p, w) k = (Panic p, w)"
  by (simp_all add: on_return_def)

lemma on_reply_simps:
  "on_reply ((v, None), w) k = k v w"
  "on_reply ((v, Some err), w) k = (Fail err, w)"
  by (simp_all add: on_reply_def)

lemma assert_simps:
  "assert (Some v) w k = k v"
  "assert None w k = (Panic TypeAssertion, w)"
  by (simp_all add: assert_def)

lemma send_log: "snd (snd (send tr r w)) = snd w @ [r]"
  by (simp add: send_def split: prod.splits)

lemma valid_iff:
  "lookup_bool validObjectType t \<longleftrightarrow>
     t \<in> {''vmware'', ''sla'', ''vmwareHost'', ''physicalHost'', ''filesetTemplate'', ''managedVolume''}"
  by (simp add: lookup_bool_def validObjectType_def)

lemma as_string_eq: "as_string x = Some s \<longleftrightarrow> x = VString s"
  by (cases x) auto

lemmas run =
  ObjectID_def objectSummary_def lookup_bool_def validObjectType_def validObjectType_vmware_def
  validHostOs_def send_def on_reply_def on_return_def assert_def pick_def index_def nameValue_def
  httpTimeout_def longTimeout_def scripted_def cluster_def listing_def entry_def

subsection \<open>What a call of ObjectID adds to the requests issued\<close>

lemma ObjectID_log:
  "snd (snd (ObjectID tr n t h w)) = snd w \<or>
   (\<exists>v p. snd (snd (ObjectID tr n t h w)) = snd w @ [Get v p []])"
  by (auto simp: ObjectID_def on_reply_def send_def split: sum.splits prod.splits option.splits)

lemma ObjectID_no_mutation: "no_mutation w (snd (ObjectID tr n t h w))"
  using ObjectID_log [of tr n t h w] by (auto simp: no_mutation_def)

lemma fetchedD:
  assumes "fetched tr objectName objectType version prefix t w ident summary w2"
  shows "\<exists>w1. ObjectID tr objectName objectType [] w = (Return ident, w1) \<and>
              send tr (Get version (prefix @ ident) [t]) w1 = ((summary, None), w2) \<and>
              no_mutation w w2"
proof -
  obtain r w1 where o: "ObjectID tr objectName objectType [] w = (r, w1)"
    by (cases "ObjectID tr objectName objectType [] w")
  with assms have r: "r = Return ident"
    and g: "send tr (Get version (prefix @ ident) [t]) w1 = ((summary, None), w2)"
    by (simp_all add: fetched_def)
  have "no_mutation w w1"
    using ObjectID_no_mutation [of w tr objectName objectType "[]"] o by simp
  moreover have "snd w2 = snd w1 @ [Get version (prefix @ ident) [t]]"
    using send_log [of tr "Get version (prefix @ ident) [t]" w1] g by simp
  ultimately have "no_mutation w w2"
    by (simp add: no_mutation_def)
  with o r g show ?thesis by simp
qed

lemma fetched_no_mutation:
  "fetched tr objectName objectType version prefix t w ident summary w2 \<Longrightarrow> no_mutation w w2"
  using fetchedD by blast

subsection \<open>The filter of ObjectID\<close>

lemma collect_matching:
  "list_all (well_shaped nv objectName) cands \<Longrightarrow>
   collect nv objectName (map VMap cands) acc = Some (acc @ matching_ids nv objectName cands)"
proof (induction cands arbitrary: acc)
  case Nil
  then show ?case by (simp add: matching_ids_def)
next
  case (Cons c cs)
  then show ?case
    by (auto simp: matching_ids_def well_shaped_def as_string_eq split: option.splits if_splits)
qed

lemma pick_matching:
  assumes "index m ''total'' = VFloat64 n"
      and "index m ''data'' = VSlice (map VMap cands)"
      and "list_all (well_shaped (nameValue objectType) objectName) cands"
  shows "pick (VMap m) objectType objectName =
           (if 0 < n then
              (case matching_ids (nameValue objectType) objectName cands of
                 [] \<Rightarrow> Fail (not_found objectType objectName)
               | [i] \<Rightarrow> Return i
               | _ \<Rightarrow> Fail (ambiguous objectType objectName))
            else Fail (not_found objectType objectName))"
  using assms collect_matching [OF assms(3), of "[]"]
  by (auto simp: pick_def split: list.splits)

subsection \<open>Timeouts along an operation\<close>
















subsection \<open>The guarded operations one by one\<close>

lemma performs_on_reply:
  "mutating rq \<Longrightarrow> performs tr rq w (on_reply (send tr rq w) (\<lambda>apiRequest w'. (Return apiRequest, w')))"
  by (cases "send tr rq w") (auto simp: performs_def on_reply_def split: option.splits)

lemma performs_end:
  "mutating rq \<Longrightarrow> performs tr rq w (case send tr rq w of ((apiRequest, err), w') \<Rightarrow> (Return apiRequest, w'))"
  by (cases "send tr rq w") (auto simp: performs_def)

lemma of_performs:
  "performs tr rq before out \<Longrightarrow> send tr rq before = ((v, None), w') \<Longrightarrow> out = (Return v, w')"
  by (simp add: performs_def prod_eq_iff)

lemma Begin_guarded:
  assumes "fetched tr name ''managedVolume'' ''internal'' ''/managed_volume/'' (httpTimeout timeout)
             w ident summary w2"
      and "isWritable summary = Some writable"
  shows "if writable then
           BeginManagedVolumeSnapshot tr name timeout w = (Return (VString (already_writeable name)), w2)
         else
           performs tr (Post ''internal'' (''/managed_volume/'' @ ident @ ''/begin_snapshot'') (VMap [])
                          [httpTimeout timeout]) w2
             (BeginManagedVolumeSnapshot tr name timeout w)"
  using fetchedD [OF assms(1)] assms(2)
  by (auto simp: BeginManagedVolumeSnapshot_def on_return_simps on_reply_simps assert_simps
           intro!: performs_on_reply)

lemma End_guarded:
  assumes "fetched tr name ''managedVolume'' ''internal'' ''/managed_volume/'' (httpTimeout timeout)
             w ident summary w2"
      and "isWritable summary = Some writable"
  shows "if \<not> writable then
           EndManagedVolumeSnapshot tr name slaName timeout w = (Return (VString (already_read_only name)), w2)
         else if slaName = ''current'' then
           performs tr (Post ''internal'' (''/managed_volume/'' @ ident @ ''/end_snapshot'') (VMap [])
                          [httpTimeout timeout]) w2
             (EndManagedVolumeSnapshot tr name slaName timeout w)
         else
           (\<forall>r w3. ObjectID tr slaName ''sla'' [] w2 = (r, w3) \<longrightarrow>
              no_mutation w w3 \<and>
              (case r of
                 Return slaID \<Rightarrow>
                   performs tr (Post ''internal'' (''/managed_volume/'' @ ident @ ''/end_snapshot'')
                                  (VMap [(''retentionConfig'', VMap [(''slaId'', VString slaID)])])
                                  [httpTimeout timeout]) w3
                     (EndManagedVolumeSnapshot tr name slaName timeout w)
               | Fail err \<Rightarrow> EndManagedVolumeSnapshot tr name slaName timeout w = (Fail err, w3)
               | Panic p \<Rightarrow> EndManagedVolumeSnapshot tr name slaName timeout w = (Panic p, w3)))"
proof -
  from fetchedD [OF assms(1)] obtain w1 where
    o: "ObjectID tr name ''managedVolume'' [] w = (Return ident, w1)"
    and g: "send tr (Get ''internal'' (''/managed_volume/'' @ ident) [httpTimeout timeout]) w1
              = ((summary, None), w2)"
    and n: "no_mutation w w2"
    by blast
  have sla: "no_mutation w w3" if "ObjectID tr slaName ''sla'' [] w2 = (r, w3)" for r w3
    using ObjectID_no_mutation [of w2 tr slaName "''sla''" "[]"] that n
    by (simp add: no_mutation_def)
  show ?thesis
    using o g assms(2) sla
    by (auto simp: EndManagedVolumeSnapshot_def EndManagedVolumeSnapshot_config_def
                   on_return_simps on_reply_simps assert_simps
             split: result.splits
             intro!: performs_end)
qed

lemma Pause_guarded:
  assumes "fetched tr objectName ''vmware'' ''v1'' ''/vmware/vm/'' (longTimeout timeout)
             w ident summary w2"
      and "isSnappableBlackoutActive summary = Some active"
  shows "if active then
           PauseSnapshot tr objectName ''vmware'' timeout w
             = (Return (VString (already_paused objectName ''vmware'')), w2)
         else
           performs tr (Patch ''v1'' (''/vmware/vm/'' @ ident) (VMap [(''isVmPaused'', VBool True)])
                          [longTimeout timeout]) w2
             (PauseSnapshot tr objectName ''vmware'' timeout w)"
  using fetchedD [OF assms(1)] assms(2)
  by (auto simp: PauseSnapshot_def lookup_bool_def validObjectType_vmware_def
                 on_return_simps on_reply_simps assert_simps
           intro!: performs_on_reply)

lemma Resume_guarded:
  assumes "fetched tr objectName ''vmware'' ''v1'' ''/vmware/vm/'' (longTimeout timeout)
             w ident summary w2"
      and "isSnappableBlackoutActive summary = Some active"
  shows "if \<not> active then
           ResumeSnapshot tr objectName ''vmware'' timeout w
             = (Return (VString (not_paused objectName ''vmware'')), w2)
         else
           performs tr (Patch ''v1'' (''/vmware/vm/'' @ ident) (VMap [(''isVmPaused'', VBool False)])
                          [longTimeout timeout]) w2
             (ResumeSnapshot tr objectName ''vmware'' timeout w)"
  using fetchedD [OF assms(1)] assms(2)
  by (auto simp: ResumeSnapshot_def lookup_bool_def validObjectType_vmware_def
                 on_return_simps on_reply_simps assert_simps
           intro!: performs_on_reply)

subsection \<open>The SLA identifier that AssignSLA and OnDemandSnapshotVM go on with\<close>

text \<open>
  AssignSLA holds the sentinel for the two literal names and the empty string after
  a lookup by name. OnDemandSnapshotVM holds a string where it expects a map after a
  lookup by name, so that no call of it with a named SLA returns a value; with
  \<open>current\<close> it posts the effective SLA of the VM and returns the first link.
\<close>

lemma AssignSLA_slaID_sentinels:
  "AssignSLA_slaID tr ''do not protect'' w = (Return ''UNPROTECTED'', w)"
  "AssignSLA_slaID tr ''clear'' w = (Return ''INHERIT'', w)"
  by (simp_all add: AssignSLA_slaID_def)

lemma AssignSLA_slaID_empty:
  "slaName \<noteq> ''do not protect'' \<Longrightarrow> slaName \<noteq> ''clear'' \<Longrightarrow>
   fst (AssignSLA_slaID tr slaName w) = Return slaID \<Longrightarrow> slaID = []"
  by (cases "ObjectID tr slaName ''sla'' [] w")
     (auto simp: AssignSLA_slaID_def on_return_def split: result.splits)

lemma OnDemandSnapshotVM_slaID_string:
  "slaName \<noteq> ''current'' \<Longrightarrow> fst (OnDemandSnapshotVM_slaID tr vmID slaName w) = Return slaID \<Longrightarrow>
   as_map slaID = None"
  by (cases "ObjectID tr slaName ''sla'' [] w")
     (auto simp: OnDemandSnapshotVM_slaID_def on_return_def split: result.splits)

lemma OnDemandSnapshotVM_named_sla_never_returns:
  assumes "slaName \<noteq> ''current''"
  shows "fst (OnDemandSnapshotVM tr objectName objectType slaName timeout w) \<noteq> Return href"
proof (cases "lookup_bool validObjectType_vmware objectType")
  case False
  then show ?thesis by (simp add: OnDemandSnapshotVM_def)
next
  case True
  then have vm: "objectType = ''vmware''"
    by (simp add: lookup_bool_def validObjectType_vmware_def split: if_splits)
  obtain r w1 where o: "ObjectID tr objectName ''vmware'' [] w = (r, w1)"
    by (cases "ObjectID tr objectName ''vmware'' [] w")
  show ?thesis
  proof (cases r)
    case (Return vmID)
    obtain r2 w2 where s: "OnDemandSnapshotVM_slaID tr vmID slaName w1 = (r2, w2)"
      by (cases "OnDemandSnapshotVM_slaID tr vmID slaName w1")
    show ?thesis
    proof (cases r2)
      case (Return slaID)
      with s OnDemandSnapshotVM_slaID_string [OF assms, of tr vmID w1 slaID]
      have "as_map slaID = None" by simp
      with True vm o s \<open>r = Return vmID\<close> \<open>r2 = Return slaID\<close> show ?thesis
        by (simp add: OnDemandSnapshotVM_def on_return_simps assert_simps)
    qed (use True vm o s \<open>r = Return vmID\<close> in \<open>simp_all add: OnDemandSnapshotVM_def on_return_simps\<close>)
  qed (use True vm o in \<open>simp_all add: OnDemandSnapshotVM_def on_return_simps\<close>)
qed

lemma OnDemandSnapshotVM_current_example:
  "OnDemandSnapshotVM (scripted cluster) ''vm1'' ''vmware'' ''current'' [] ((), [])
     = (Return ''/vmware/vm/request/1'',
        ((), [Get ''v1'' ''/vmware/vm?primary_cluster_id=local&is_relic=false&name=vm1'' [],
              Get ''v1'' ''/vmware/vm/vm-1'' [],
              Post ''v1'' ''/vmware/vm/vm-1/snapshot'' (VMap [(''slaId'', VString ''sla-gold'')]) [180]]))"
  by (simp add: run OnDemandSnapshotVM_def OnDemandSnapshotVM_slaID_def first_link_href_def)

section \<open>Object resolution\<close>

text \<open>
  C1, as the code has it. ObjectID is called with a valid objectType, its list query
  is issued and answered without an error, and the answer is a map with a numeric
  \<open>total\<close> and a \<open>data\<close> list of well-shaped candidates. When the total is positive the
  result is decided by the candidates whose name field (\<open>hostname\<close> for physicalHost,
  \<open>name\<close> otherwise) equals objectName exactly: exactly one gives its \<open>id\<close> and no error,
  none gives the not-found error, two or more give the ambiguous error. When the
  total is not positive the result is the not-found error whatever the candidates
  are. In every case the list query is the only request issued.
\<close>

theorem ObjectID_resolves:
  assumes "lookup_bool validObjectType objectType"
      and "objectSummary objectName objectType hostOS = Inr (version, endpoint)"
      and "tr (Get version endpoint []) s = ((VMap m, None), s')"
      and "index m ''total'' = VFloat64 n"
      and "index m ''data'' = VSlice (map VMap cands)"
      and "list_all (well_shaped (nameValue objectType) objectName) cands"
  shows "ObjectID tr objectName objectType hostOS (s, issued) =
           (if 0 < n then
              (case matching_ids (nameValue objectType) objectName cands of
                 [] \<Rightarrow> Fail (not_found objectType objectName)
               | [i] \<Rightarrow> Return i
               | _ \<Rightarrow> Fail (ambiguous objectType objectName))
            else Fail (not_found objectType objectName),
            (s', issued @ [Get version endpoint []]))"
  using assms(1-3) pick_matching [OF assms(4-6)]
  by (simp add: ObjectID_def on_reply_def send_def)

text \<open>
  The theorem at the example cluster: \<open>vm1\<close> is the second of two candidates, and the
  other one, \<open>vm10\<close>, is no exact match.
\<close>

theorem ObjectID_resolves_witness:
  "ObjectID (scripted cluster) ''vm1'' ''vmware'' [] ((), [])
     = (Return ''vm-1'', ((), [Get ''v1'' ''/vmware/vm?primary_cluster_id=local&is_relic=false&name=vm1'' []]))"
proof -
  let ?cands = "[[(''name'', VString ''vm10''), (''id'', VString ''vm-10'')],
                 [(''name'', VString ''vm1''), (''id'', VString ''vm-1'')]]"
  let ?m = "[(''total'', VFloat64 2), (''data'', VSlice (map VMap ?cands))]"
  have 1: "lookup_bool validObjectType ''vmware''"
    by (simp add: valid_iff)
  have 2: "objectSummary ''vm1'' ''vmware'' [] =
             Inr (''v1'', ''/vmware/vm?primary_cluster_id=local&is_relic=false&name=vm1'')"
    by (simp add: objectSummary_def)
  have 3: "scripted cluster (Get ''v1'' ''/vmware/vm?primary_cluster_id=local&is_relic=false&name=vm1'' []) ()
             = ((VMap ?m, None), ())"
    by (simp add: scripted_def cluster_def listing_def entry_def)
  have 4: "index ?m ''total'' = VFloat64 2" and 5: "index ?m ''data'' = VSlice (map VMap ?cands)"
    by (simp_all add: index_def)
  have 6: "list_all (well_shaped (nameValue ''vmware'') ''vm1'') ?cands"
    by (simp add: well_shaped_def nameValue_def index_def)
  show ?thesis
    using ObjectID_resolves [where tr = "scripted cluster" and objectName = "''vm1''"
        and objectType = "''vmware''" and hostOS = "[]" and m = ?m and cands = ?cands and n = 2
        and s = "()" and s' = "()" and issued = "[]", OF 1 2 3 4 5 6]
    by (simp add: matching_ids_def nameValue_def index_def)
qed

text \<open>
  C1 as stated, without the condition on the total, fails: the answer for \<open>vm3\<close>
  holds exactly one candidate of that name but counts zero, and ObjectID returns the
  not-found error.
\<close>

theorem ObjectID_stale_total_counterexample:
  "scripted cluster (Get ''v1'' ''/vmware/vm?primary_cluster_id=local&is_relic=false&name=vm3'' []) ()
     = ((VMap [(''total'', VFloat64 0),
               (''data'', VSlice [VMap [(''name'', VString ''vm3''), (''id'', VString ''vm-3'')]])], None), ())
   \<and> ObjectID (scripted cluster) ''vm3'' ''vmware'' [] ((), [])
     = (Fail (not_found ''vmware'' ''vm3''),
        ((), [Get ''v1'' ''/vmware/vm?primary_cluster_id=local&is_relic=false&name=vm3'' []]))"
  by (simp add: run)

text \<open>
  C9. ObjectID called with an objectType outside the six valid ones, or with
  objectType \<open>filesetTemplate\<close> and a hostOS that is absent or whose first value is
  neither \<open>Linux\<close> nor \<open>Windows\<close>, returns its usage error and leaves the world as
  it was: no request is issued.
\<close>

theorem usage_errors_before_any_call:
  "(\<not> lookup_bool validObjectType objectType \<longrightarrow>
      ObjectID tr objectName objectType hostOS w = (Fail invalid_objectType, w))
 \<and> (hostOS = [] \<longrightarrow>
      ObjectID tr objectName ''filesetTemplate'' hostOS w = (Fail missing_hostOS, w))
 \<and> (hostOS \<noteq> [] \<and> hd hostOS \<noteq> ''Linux'' \<and> hd hostOS \<noteq> ''Windows'' \<longrightarrow>
      ObjectID tr objectName ''filesetTemplate'' hostOS w = (Fail invalid_hostOS, w))"
  by (cases hostOS) (simp_all add: ObjectID_def objectSummary_def valid_iff)

theorem usage_errors_before_any_call_witness:
  "\<not> lookup_bool validObjectType ''fileset''
   \<and> ObjectID (scripted cluster) ''etc'' ''fileset'' [''Linux''] ((), []) = (Fail invalid_objectType, ((), []))
   \<and> ObjectID (scripted cluster) ''etc'' ''filesetTemplate'' [] ((), []) = (Fail missing_hostOS, ((), []))
   \<and> ObjectID (scripted cluster) ''etc'' ''filesetTemplate'' [''Solaris''] ((), [])
       = (Fail invalid_hostOS, ((), []))"
  using usage_errors_before_any_call [of "''fileset''" "scripted cluster" "''etc''" "[''Linux'']" "((), [])"]
        usage_errors_before_any_call [of "''fileset''" "scripted cluster" "''etc''" "[]" "((), [])"]
        usage_errors_before_any_call [of "''fileset''" "scripted cluster" "''etc''" "[''Solaris'']" "((), [])"]
  by (simp add: valid_iff)

text \<open>
  C10. For every objectType other than \<open>filesetTemplate\<close> the hostOS argument has no
  effect: two calls that differ in nothing else return the same result and leave the
  same world, so they issue the same requests.
\<close>

theorem hostOS_ignored:
  "objectType \<noteq> ''filesetTemplate'' \<Longrightarrow>
     ObjectID tr objectName objectType hostOS w = ObjectID tr objectName objectType hostOS' w"
  by (simp add: ObjectID_def objectSummary_def)

theorem hostOS_ignored_witness:
  "''physicalHost'' \<noteq> ''filesetTemplate''
   \<and> ObjectID (scripted cluster) ''host1'' ''physicalHost'' [''Windows'', ''Linux''] ((), [])
       = ObjectID (scripted cluster) ''host1'' ''physicalHost'' [] ((), [])"
  using hostOS_ignored [of "''physicalHost''" "scripted cluster" "''host1''" "[''Windows'', ''Linux'']"
                          "((), [])" "[]"]
  by simp

section \<open>AssignSLA\<close>

text \<open>
  C2. AssignSLA should post to \<open>/sla_domain/i/assign\<close> for the identifier \<open>i\<close> that
  the SLA lookup returned. At the example cluster \<open>Silver\<close> resolves to
  \<open>sla-silver\<close>, and the request AssignSLA issues goes to \<open>/sla_domain//assign\<close>:
  the resolved identifier is lost with the variable of the inner scope.
\<close>

theorem AssignSLA_drops_resolved_id:
  "fst (ObjectID (scripted cluster) ''Silver'' ''sla'' [] ((), [])) = Return ''sla-silver''
   \<and> snd (snd (AssignSLA (scripted cluster) ''vm1'' ''vmware'' ''Silver'' [] ((), [])))
     = [Get ''v1'' ''/sla_domain?primary_cluster_id=local&name=Silver'' [],
        Get ''v1'' ''/vmware/vm?primary_cluster_id=local&is_relic=false&name=vm1'' [],
        Get ''v1'' ''/vmware/vm/vm-1'' [15],
        Post ''internal'' ''/sla_domain//assign'' (VMap [(''managedIds'', VSlice [VString ''vm-1''])]) [15]]"
  by (simp add: run AssignSLA_def AssignSLA_slaID_def AssignSLA_post_def)

text \<open>
  C5. AssignSLA should return the confirmation message and post nothing when the
  target SLA is the one the VM already has. At the example cluster \<open>Gold\<close> resolves to
  \<open>sla-gold\<close>, which is the effective SLA of \<open>vm1\<close>, and AssignSLA still posts an
  assignment: it compares the empty string with the VM's SLA.
\<close>

theorem AssignSLA_reassigns_current_sla:
  "fst (ObjectID (scripted cluster) ''Gold'' ''sla'' [] ((), [])) = Return ''sla-gold''
   \<and> fst (scripted cluster (Get ''v1'' ''/vmware/vm/vm-1'' [15]) ())
     = (VMap [(''effectiveSlaDomainId'', VString ''sla-gold''),
              (''configuredSlaDomainId'', VString ''sla-gold''),
              (''blackoutWindowStatus'', VMap [(''isSnappableBlackoutActive'', VBool False)])], None)
   \<and> AssignSLA (scripted cluster) ''vm1'' ''vmware'' ''Gold'' [] ((), [])
     = (Fail (Error ''404 Not Found''),
        ((), [Get ''v1'' ''/sla_domain?primary_cluster_id=local&name=Gold'' [],
              Get ''v1'' ''/vmware/vm?primary_cluster_id=local&is_relic=false&name=vm1'' [],
              Get ''v1'' ''/vmware/vm/vm-1'' [15],
              Post ''internal'' ''/sla_domain//assign''
                (VMap [(''managedIds'', VSlice [VString ''vm-1''])]) [15]]))"
  by (simp add: run AssignSLA_def AssignSLA_slaID_def AssignSLA_post_def)

section \<open>Managed volumes and pausing\<close>

text \<open>
  C7, as the code has it. Once the volume (for Begin and End) or the VM (for Pause
  and Resume) is resolved and its summary fetched, no mutating request has been
  issued, and the flag read from the summary decides. When the flag already has the
  target value the operation returns its confirmation message and the world of the
  fetch. Otherwise it ends by performing its one mutating request, with
  \<open>isVmPaused\<close> true for Pause and false for Resume, and returns the raw response when
  no error is reported. For EndManagedVolumeSnapshot with an slaName other than
  \<open>current\<close> this holds once the SLA name has resolved, and the request then holds
  the resolved identifier as \<open>retentionConfig.slaId\<close>; when the SLA name does not
  resolve, the operation ends with the outcome of that lookup, in the world the lookup
  left, and no mutating request is issued.
\<close>

theorem guarded_transitions:
  "(fetched tr name ''managedVolume'' ''internal'' ''/managed_volume/'' (httpTimeout timeout)
      w mv mvSummary w' \<and> isWritable mvSummary = Some writable \<longrightarrow>
      no_mutation w w' \<and>
      (if writable then
         BeginManagedVolumeSnapshot tr name timeout w = (Return (VString (already_writeable name)), w')
       else
         performs tr (Post ''internal'' (''/managed_volume/'' @ mv @ ''/begin_snapshot'') (VMap [])
                        [httpTimeout timeout]) w'
           (BeginManagedVolumeSnapshot tr name timeout w)) \<and>
      (if \<not> writable then
         EndManagedVolumeSnapshot tr name slaName timeout w = (Return (VString (already_read_only name)), w')
       else if slaName = ''current'' then
         performs tr (Post ''internal'' (''/managed_volume/'' @ mv @ ''/end_snapshot'') (VMap [])
                        [httpTimeout timeout]) w'
           (EndManagedVolumeSnapshot tr name slaName timeout w)
       else
         (\<forall>r w3. ObjectID tr slaName ''sla'' [] w' = (r, w3) \<longrightarrow>
            no_mutation w w3 \<and>
            (case r of
               Return slaID \<Rightarrow>
                 performs tr (Post ''internal'' (''/managed_volume/'' @ mv @ ''/end_snapshot'')
                                (VMap [(''retentionConfig'', VMap [(''slaId'', VString slaID)])])
                                [httpTimeout timeout]) w3
                   (EndManagedVolumeSnapshot tr name slaName timeout w)
             | Fail err \<Rightarrow> EndManagedVolumeSnapshot tr name slaName timeout w = (Fail err, w3)
             | Panic p \<Rightarrow> EndManagedVolumeSnapshot tr name slaName timeout w = (Panic p, w3)))))
   \<and>
   (fetched tr objectName ''vmware'' ''v1'' ''/vmware/vm/'' (longTimeout timeout)
      w vm vmSummary w' \<and> isSnappableBlackoutActive vmSummary = Some active \<longrightarrow>
      no_mutation w w' \<and>
      (if active then
         PauseSnapshot tr objectName ''vmware'' timeout w
           = (Return (VString (already_paused objectName ''vmware'')), w')
       else
         performs tr (Patch ''v1'' (''/vmware/vm/'' @ vm) (VMap [(''isVmPaused'', VBool True)])
                        [longTimeout timeout]) w'
           (PauseSnapshot tr objectName ''vmware'' timeout w)) \<and>
      (if \<not> active then
         ResumeSnapshot tr objectName ''vmware'' timeout w
           = (Return (VString (not_paused objectName ''vmware'')), w')
       else
         performs tr (Patch ''v1'' (''/vmware/vm/'' @ vm) (VMap [(''isVmPaused'', VBool False)])
                        [longTimeout timeout]) w'
           (ResumeSnapshot tr objectName ''vmware'' timeout w)))"
proof (intro conjI impI; elim conjE)
  assume f: "fetched tr name ''managedVolume'' ''internal'' ''/managed_volume/'' (httpTimeout timeout)
               w mv mvSummary w'"
     and i: "isWritable mvSummary = Some writable"
  show "no_mutation w w'"
    using f by (rule fetched_no_mutation)
  show "if writable then
          BeginManagedVolumeSnapshot tr name timeout w = (Return (VString (already_writeable name)), w')
        else
          performs tr (Post ''internal'' (''/managed_volume/'' @ mv @ ''/begin_snapshot'') (VMap [])
                         [httpTimeout timeout]) w'
            (BeginManagedVolumeSnapshot tr name timeout w)"
    using f i by (rule Begin_guarded)
  show "if \<not> writable then
          EndManagedVolumeSnapshot tr name slaName timeout w = (Return (VString (already_read_only name)), w')
        else if slaName = ''current'' then
          performs tr (Post ''internal'' (''/managed_volume/'' @ mv @ ''/end_snapshot'') (VMap [])
                         [httpTimeout timeout]) w'
            (EndManagedVolumeSnapshot tr name slaName timeout w)
        else
          (\<forall>r w3. ObjectID tr slaName ''sla'' [] w' = (r, w3) \<longrightarrow>
             no_mutation w w3 \<and>
             (case r of
                Return slaID \<Rightarrow>
                  performs tr (Post ''internal'' (''/managed_volume/'' @ mv @ ''/end_snapshot'')
                                 (VMap [(''retentionConfig'', VMap [(''slaId'', VString slaID)])])
                                 [httpTimeout timeout]) w3
                    (EndManagedVolumeSnapshot tr name slaName timeout w)
              | Fail err \<Rightarrow> EndManagedVolumeSnapshot tr name slaName timeout w = (Fail err, w3)
              | Panic p \<Rightarrow> EndManagedVolumeSnapshot tr name slaName timeout w = (Panic p, w3)))"
    using f i by (rule End_guarded)
next
  assume f: "fetched tr objectName ''vmware'' ''v1'' ''/vmware/vm/'' (longTimeout timeout)
               w vm vmSummary w'"
     and a: "isSnappableBlackoutActive vmSummary = Some active"
  show "no_mutation w w'"
    using f by (rule fetched_no_mutation)
  show "if active then
          PauseSnapshot tr objectName ''vmware'' timeout w
            = (Return (VString (already_paused objectName ''vmware'')), w')
        else
          performs tr (Patch ''v1'' (''/vmware/vm/'' @ vm) (VMap [(''isVmPaused'', VBool True)])
                         [longTimeout timeout]) w'
            (PauseSnapshot tr objectName ''vmware'' timeout w)"
    using f a by (rule Pause_guarded)
  show "if \<not> active then
          ResumeSnapshot tr objectName ''vmware'' timeout w
            = (Return (VString (not_paused objectName ''vmware'')), w')
        else
          performs tr (Patch ''v1'' (''/vmware/vm/'' @ vm) (VMap [(''isVmPaused'', VBool False)])
                         [longTimeout timeout]) w'
            (ResumeSnapshot tr objectName ''vmware'' timeout w)"
    using f a by (rule Resume_guarded)
qed

text \<open>
  The theorem at the example cluster: \<open>mv1\<close> is writable, so Begin changes nothing and
  End posts, with and without an SLA, and stops at the SLA name \<open>Bronze\<close>, which
  does not resolve; \<open>vm1\<close> is not paused, so Pause patches and Resume changes
  nothing.
\<close>

theorem guarded_transitions_witness:
  "fetched (scripted cluster) ''mv1'' ''managedVolume'' ''internal'' ''/managed_volume/'' 15 ((), [])
     ''mv-1'' (VMap [(''isWritable'', VBool True)])
     ((), [Get ''internal'' ''/managed_volume?is_relic=false&primary_cluster_id=local&name=mv1'' [],
           Get ''internal'' ''/managed_volume/mv-1'' [15]])
   \<and> isWritable (VMap [(''isWritable'', VBool True)]) = Some True
   \<and> BeginManagedVolumeSnapshot (scripted cluster) ''mv1'' [] ((), [])
     = (Return (VString (already_writeable ''mv1'')),
        ((), [Get ''internal'' ''/managed_volume?is_relic=false&primary_cluster_id=local&name=mv1'' [],
              Get ''internal'' ''/managed_volume/mv-1'' [15]]))
   \<and> EndManagedVolumeSnapshot (scripted cluster) ''mv1'' ''current'' [] ((), [])
     = (Return (VMap [(''id'', VString ''mv-1'')]),
        ((), [Get ''internal'' ''/managed_volume?is_relic=false&primary_cluster_id=local&name=mv1'' [],
              Get ''internal'' ''/managed_volume/mv-1'' [15],
              Post ''internal'' ''/managed_volume/mv-1/end_snapshot'' (VMap []) [15]]))
   \<and> EndManagedVolumeSnapshot (scripted cluster) ''mv1'' ''Gold'' [] ((), [])
     = (Return (VMap [(''id'', VString ''mv-1'')]),
        ((), [Get ''internal'' ''/managed_volume?is_relic=false&primary_cluster_id=local&name=mv1'' [],
              Get ''internal'' ''/managed_volume/mv-1'' [15],
              Get ''v1'' ''/sla_domain?primary_cluster_id=local&name=Gold'' [],
              Post ''internal'' ''/managed_volume/mv-1/end_snapshot''
                (VMap [(''retentionConfig'', VMap [(''slaId'', VString ''sla-gold'')])]) [15]]))
   \<and> EndManagedVolumeSnapshot (scripted cluster) ''mv1'' ''Bronze'' [] ((), [])
     = (Fail (not_found ''sla'' ''Bronze''),
        ((), [Get ''internal'' ''/managed_volume?is_relic=false&primary_cluster_id=local&name=mv1'' [],
              Get ''internal'' ''/managed_volume/mv-1'' [15],
              Get ''v1'' ''/sla_domain?primary_cluster_id=local&name=Bronze'' []]))
   \<and> PauseSnapshot (scripted cluster) ''vm1'' ''vmware'' [] ((), [])
     = (Return (VMap [(''id'', VString ''vm-1'')]),
        ((), [Get ''v1'' ''/vmware/vm?primary_cluster_id=local&is_relic=false&name=vm1'' [],
              Get ''v1'' ''/vmware/vm/vm-1'' [180],
              Patch ''v1'' ''/vmware/vm/vm-1'' (VMap [(''isVmPaused'', VBool True)]) [180]]))
   \<and> ResumeSnapshot (scripted cluster) ''vm1'' ''vmware'' [] ((), [])
     = (Return (VString (not_paused ''vm1'' ''vmware'')),
        ((), [Get ''v1'' ''/vmware/vm?primary_cluster_id=local&is_relic=false&name=vm1'' [],
              Get ''v1'' ''/vmware/vm/vm-1'' [180]]))"
proof -
  let ?mvSummary = "VMap [(''isWritable'', VBool True)]"
  let ?w2 = "((), [Get ''internal'' ''/managed_volume?is_relic=false&primary_cluster_id=local&name=mv1'' [],
                   Get ''internal'' ''/managed_volume/mv-1'' [15]])"
  let ?vmSummary = "VMap [(''effectiveSlaDomainId'', VString ''sla-gold''),
                          (''configuredSlaDomainId'', VString ''sla-gold''),
                          (''blackoutWindowStatus'', VMap [(''isSnappableBlackoutActive'', VBool False)])]"
  let ?v2 = "((), [Get ''v1'' ''/vmware/vm?primary_cluster_id=local&is_relic=false&name=vm1'' [],
                   Get ''v1'' ''/vmware/vm/vm-1'' [180]])"
  have f: "fetched (scripted cluster) ''mv1'' ''managedVolume'' ''internal'' ''/managed_volume/''
             (httpTimeout []) ((), []) ''mv-1'' ?mvSummary ?w2"
    by (simp add: fetched_def run)
  have i: "isWritable ?mvSummary = Some True"
    by (simp add: isWritable_def index_def)
  have g: "fetched (scripted cluster) ''vm1'' ''vmware'' ''v1'' ''/vmware/vm/''
             (longTimeout []) ((), []) ''vm-1'' ?vmSummary ?v2"
    by (simp add: fetched_def run)
  have a: "isSnappableBlackoutActive ?vmSummary = Some False"
    by (simp add: isSnappableBlackoutActive_def index_def)
  have sla: "ObjectID (scripted cluster) ''Gold'' ''sla'' [] ?w2
               = (Return ''sla-gold'', ((), snd ?w2 @ [Get ''v1'' ''/sla_domain?primary_cluster_id=local&name=Gold'' []]))"
    by (simp add: run)
  have bronze: "ObjectID (scripted cluster) ''Bronze'' ''sla'' [] ?w2
               = (Fail (not_found ''sla'' ''Bronze''),
                  ((), snd ?w2 @ [Get ''v1'' ''/sla_domain?primary_cluster_id=local&name=Bronze'' []]))"
    by (simp add: run)
  note volume = guarded_transitions [where tr = "scripted cluster" and name = "''mv1''" and timeout = "[]"
      and w = "((), [])" and mv = "''mv-1''" and mvSummary = ?mvSummary and w' = ?w2 and writable = True,
      THEN conjunct1, rule_format, OF conjI, OF f i]
  note vm = guarded_transitions [where tr = "scripted cluster" and objectName = "''vm1''" and timeout = "[]"
      and w = "((), [])" and vm = "''vm-1''" and vmSummary = ?vmSummary and w' = ?v2 and active = False,
      THEN conjunct2, rule_format, OF conjI, OF g a]
  have "BeginManagedVolumeSnapshot (scripted cluster) ''mv1'' [] ((), [])
          = (Return (VString (already_writeable ''mv1'')), ?w2)"
    using volume by simp
  moreover have "EndManagedVolumeSnapshot (scripted cluster) ''mv1'' ''current'' [] ((), [])
          = (Return (VMap [(''id'', VString ''mv-1'')]),
             ((), snd ?w2 @ [Post ''internal'' ''/managed_volume/mv-1/end_snapshot'' (VMap []) [15]]))"
  proof (rule of_performs)
    show "performs (scripted cluster)
            (Post ''internal'' ''/managed_volume/mv-1/end_snapshot'' (VMap []) [15]) ?w2
            (EndManagedVolumeSnapshot (scripted cluster) ''mv1'' ''current'' [] ((), []))"
      using volume [where slaName = "''current''"] by (simp add: httpTimeout_def)
  qed (simp add: run)
  moreover have "EndManagedVolumeSnapshot (scripted cluster) ''mv1'' ''Gold'' [] ((), [])
          = (Return (VMap [(''id'', VString ''mv-1'')]),
             ((), snd ?w2 @ [Get ''v1'' ''/sla_domain?primary_cluster_id=local&name=Gold'' [],
                             Post ''internal'' ''/managed_volume/mv-1/end_snapshot''
                               (VMap [(''retentionConfig'', VMap [(''slaId'', VString ''sla-gold'')])]) [15]]))"
  proof (rule of_performs)
    show "performs (scripted cluster)
            (Post ''internal'' ''/managed_volume/mv-1/end_snapshot''
               (VMap [(''retentionConfig'', VMap [(''slaId'', VString ''sla-gold'')])]) [15])
            ((), snd ?w2 @ [Get ''v1'' ''/sla_domain?primary_cluster_id=local&name=Gold'' []])
            (EndManagedVolumeSnapshot (scripted cluster) ''mv1'' ''Gold'' [] ((), []))"
      using volume [where slaName = "''Gold''"] sla by (simp add: httpTimeout_def)
  qed (simp add: run)
  moreover have "EndManagedVolumeSnapshot (scripted cluster) ''mv1'' ''Bronze'' [] ((), [])
          = (Fail (not_found ''sla'' ''Bronze''),
             ((), snd ?w2 @ [Get ''v1'' ''/sla_domain?primary_cluster_id=local&name=Bronze'' []]))"
    using volume [where slaName = "''Bronze''"] bronze by simp
  moreover have "PauseSnapshot (scripted cluster) ''vm1'' ''vmware'' [] ((), [])
          = (Return (VMap [(''id'', VString ''vm-1'')]),
             ((), snd ?v2 @ [Patch ''v1'' ''/vmware/vm/vm-1'' (VMap [(''isVmPaused'', VBool True)]) [180]]))"
  proof (rule of_performs)
    show "performs (scripted cluster)
            (Patch ''v1'' ''/vmware/vm/vm-1'' (VMap [(''isVmPaused'', VBool True)]) [180]) ?v2
            (PauseSnapshot (scripted cluster) ''vm1'' ''vmware'' [] ((), []))"
      using vm by (simp add: longTimeout_def httpTimeout_def)
  qed (simp add: run)
  moreover have "ResumeSnapshot (scripted cluster) ''vm1'' ''vmware'' [] ((), [])
          = (Return (VString (not_paused ''vm1'' ''vmware'')), ?v2)"
    using vm by simp
  ultimately show ?thesis
    using f i by (simp add: httpTimeout_def)
qed

text \<open>
  C7 as stated fails for EndManagedVolumeSnapshot: the volume \<open>mv1\<close> is writable, which
  is not the target state, but the SLA name \<open>Bronze\<close> does not resolve, and the
  operation returns that error without any mutating request.
\<close>

theorem EndManagedVolumeSnapshot_unresolved_sla_counterexample:
  "fst (scripted cluster (Get ''internal'' ''/managed_volume/mv-1'' [15]) ())
     = (VMap [(''isWritable'', VBool True)], None)
   \<and> EndManagedVolumeSnapshot (scripted cluster) ''mv1'' ''Bronze'' [] ((), [])
     = (Fail (not_found ''sla'' ''Bronze''),
        ((), [Get ''internal'' ''/managed_volume?is_relic=false&primary_cluster_id=local&name=mv1'' [],
              Get ''internal'' ''/managed_volume/mv-1'' [15],
              Get ''v1'' ''/sla_domain?primary_cluster_id=local&name=Bronze'' []]))"
  by (simp add: run EndManagedVolumeSnapshot_def EndManagedVolumeSnapshot_config_def isWritable_def)

text \<open>
  C3. EndManagedVolumeSnapshot should return the error of its POST to the caller. At
  the example cluster the end of a snapshot of \<open>mv2\<close> is answered with an error, and
  EndManagedVolumeSnapshot returns the value of that answer with no error.
\<close>

theorem EndManagedVolumeSnapshot_drops_error:
  "scripted cluster (Post ''internal'' ''/managed_volume/mv-2/end_snapshot'' (VMap []) [15]) ()
     = ((VNil, Some (Error ''404 Not Found'')), ())
   \<and> EndManagedVolumeSnapshot (scripted cluster) ''mv2'' ''current'' [] ((), [])
     = (Return VNil,
        ((), [Get ''internal'' ''/managed_volume?is_relic=false&primary_cluster_id=local&name=mv2'' [],
              Get ''internal'' ''/managed_volume/mv-2'' [15],
              Post ''internal'' ''/managed_volume/mv-2/end_snapshot'' (VMap []) [15]]))"
  by (simp add: run EndManagedVolumeSnapshot_def EndManagedVolumeSnapshot_config_def isWritable_def)

section \<open>On-demand snapshots\<close>

text \<open>
  C4. With an slaName other than \<open>current\<close> OnDemandSnapshotVM should post the
  identifier that the SLA lookup returned. At the example cluster \<open>Gold\<close> resolves to
  \<open>sla-gold\<close>, and OnDemandSnapshotVM then asserts that this string is a map: it
  panics before any snapshot request is issued.
\<close>

theorem OnDemandSnapshotVM_named_sla_panics:
  "fst (ObjectID (scripted cluster) ''Gold'' ''sla'' [] ((), [])) = Return ''sla-gold''
   \<and> OnDemandSnapshotVM (scripted cluster) ''vm1'' ''vmware'' ''Gold'' [] ((), [])
     = (Panic TypeAssertion,
        ((), [Get ''v1'' ''/vmware/vm?primary_cluster_id=local&is_relic=false&name=vm1'' [],
              Get ''v1'' ''/sla_domain?primary_cluster_id=local&name=Gold'' []]))"
  by (simp add: run OnDemandSnapshotVM_def OnDemandSnapshotVM_slaID_def)

text \<open>
  C6. With no fileset for the host and template, OnDemandSnapshotPhysical should fail
  with the not-assigned error. At the example cluster the fileset query answers a
  total of the number 0 and no entries; the comparison of that \<open>float64\<close> with the
  integer constant is false, and the function panics on the first element of the
  empty list. No snapshot request is issued.
\<close>

theorem OnDemandSnapshotPhysical_empty_fileset_panics:
  "OnDemandSnapshotPhysical (scripted cluster) ''host1'' ''current'' ''etc'' ''Linux'' [] ((), [])
     = (Panic IndexOutOfRange,
        ((), [Get ''v1'' ''/host?primary_cluster_id=local&hostname=host1'' [],
              Get ''v1'' ''/fileset_template?primary_cluster_id=local&operating_system_type=Linux&name=etc'' [],
              Get ''v1'' ''/fileset?primary_cluster_id=local&host_id=host-1&is_relic=false&template_id=tmpl-1'' []]))
   \<and> fst (scripted cluster
        (Get ''v1'' ''/fileset?primary_cluster_id=local&host_id=host-1&is_relic=false&template_id=tmpl-1'' []) ())
     = (VMap [(''total'', VFloat64 0), (''data'', VSlice [])], None)"
  by (simp add: run OnDemandSnapshotPhysical_def OnDemandSnapshotPhysical_slaID_def first_fileset_field_def)

section \<open>Timeouts\<close>




end
